theory Spec2Isabelle
  imports Complex_Main
begin

section \<open>JavaScript values used by the video editor component\<close>

text \<open>
  The component \<^verbatim>\<open>VideoEditor.svelte\<close> computes with JavaScript numbers. A number
  value is modelled as \<open>NaN\<close>, one of the two infinities, or a finite value. Finite values
  are taken as exact reals: the rounding of IEEE doubles and the sign of zero are not
  represented (the single zero stands for \<open>+0\<close>, the only zero the modelled code ever
  divides by, since the width and height of a bounding rectangle are never negative).
  A property that may be absent from an object (\<open>undefined\<close>) is an \<open>option\<close>.
\<close>

datatype jsnum = NaN | PInf | NInf | Fin real

fun jneg :: "jsnum \<Rightarrow> jsnum" where
  "jneg NaN = NaN"
| "jneg PInf = NInf"
| "jneg NInf = PInf"
| "jneg (Fin a) = Fin (- a)"

text \<open>The operator \<^verbatim>\<open>+\<close> on two numbers.\<close>

fun jadd :: "jsnum \<Rightarrow> jsnum \<Rightarrow> jsnum" where
  "jadd NaN b = NaN"
| "jadd a NaN = NaN"
| "jadd PInf NInf = NaN"
| "jadd NInf PInf = NaN"
| "jadd PInf b = PInf"
| "jadd a PInf = PInf"
| "jadd NInf b = NInf"
| "jadd a NInf = NInf"
| "jadd (Fin a) (Fin b) = Fin (a + b)"

text \<open>The operator \<^verbatim>\<open>-\<close> on two numbers.\<close>

definition jsub :: "jsnum \<Rightarrow> jsnum \<Rightarrow> jsnum" where
  "jsub a b = jadd a (jneg b)"

text \<open>The operator \<^verbatim>\<open>*\<close>: an infinity times zero is \<open>NaN\<close>.\<close>

fun jmul :: "jsnum \<Rightarrow> jsnum \<Rightarrow> jsnum" where
  "jmul NaN b = NaN"
| "jmul a NaN = NaN"
| "jmul PInf PInf = PInf"
| "jmul PInf NInf = NInf"
| "jmul NInf PInf = NInf"
| "jmul NInf NInf = PInf"
| "jmul PInf (Fin b) = (if b = 0 then NaN else if 0 < b then PInf else NInf)"
| "jmul NInf (Fin b) = (if b = 0 then NaN else if 0 < b then NInf else PInf)"
| "jmul (Fin a) PInf = (if a = 0 then NaN else if 0 < a then PInf else NInf)"
| "jmul (Fin a) NInf = (if a = 0 then NaN else if 0 < a then NInf else PInf)"
| "jmul (Fin a) (Fin b) = Fin (a * b)"

text \<open>
  The operator \<^verbatim>\<open>/\<close>. Nothing is raised on a zero divisor: a nonzero finite value
  over zero is an infinity of the sign of the dividend, and zero over zero is \<open>NaN\<close>.
\<close>

fun jdiv :: "jsnum \<Rightarrow> jsnum \<Rightarrow> jsnum" where
  "jdiv NaN b = NaN"
| "jdiv a NaN = NaN"
| "jdiv PInf PInf = NaN"
| "jdiv PInf NInf = NaN"
| "jdiv NInf PInf = NaN"
| "jdiv NInf NInf = NaN"
| "jdiv PInf (Fin b) = (if 0 \<le> b then PInf else NInf)"
| "jdiv NInf (Fin b) = (if 0 \<le> b then NInf else PInf)"
| "jdiv (Fin a) PInf = Fin 0"
| "jdiv (Fin a) NInf = Fin 0"
| "jdiv (Fin a) (Fin b) =
     (if b = 0 then (if a = 0 then NaN else if 0 < a then PInf else NInf)
      else Fin (a / b))"

text \<open>The comparisons \<^verbatim>\<open><=\<close> and \<^verbatim>\<open>>=\<close>: false as soon as one side is \<open>NaN\<close>.\<close>

fun jle :: "jsnum \<Rightarrow> jsnum \<Rightarrow> bool" where
  "jle NaN b = False"
| "jle a NaN = False"
| "jle NInf b = True"
| "jle a PInf = True"
| "jle PInf b = False"
| "jle a NInf = False"
| "jle (Fin a) (Fin b) = (a \<le> b)"

definition jge :: "jsnum \<Rightarrow> jsnum \<Rightarrow> bool" where
  "jge a b = jle b a"

text \<open>\<^verbatim>\<open>Math.min\<close> and \<^verbatim>\<open>Math.max\<close> of two numbers: \<open>NaN\<close> if either is.\<close>

definition Math_min :: "jsnum \<Rightarrow> jsnum \<Rightarrow> jsnum" where
  "Math_min a b = (if a = NaN \<or> b = NaN then NaN else if jle a b then a else b)"

definition Math_max :: "jsnum \<Rightarrow> jsnum \<Rightarrow> jsnum" where
  "Math_max a b = (if a = NaN \<or> b = NaN then NaN else if jle a b then b else a)"

text \<open>\<^verbatim>\<open>ToNumber\<close> of a property that holds a number or is \<open>undefined\<close>.\<close>

fun toNumber :: "jsnum option \<Rightarrow> jsnum" where
  "toNumber None = NaN"
| "toNumber (Some v) = v"

text \<open>Truthiness of a number: zero and \<open>NaN\<close> are falsy.\<close>

definition truthy :: "jsnum \<Rightarrow> bool" where
  "truthy v = (v \<noteq> NaN \<and> v \<noteq> Fin 0)"

section \<open>Captions and the component state\<close>

text \<open>
  A caption object: the parser creates it as \<^verbatim>\<open>{ id, text: '', active: false }\<close> and
  assigns \<^verbatim>\<open>start\<close> and \<^verbatim>\<open>end\<close> only when it meets a time-range line, so both may be
  absent. The fields carry the suffix \<open>_c\<close>.
\<close>

record caption =
  id_c :: nat
  text_c :: string
  active_c :: bool
  start_c :: "jsnum option"
  end_c :: "jsnum option"

text \<open>What the handlers read from the video element.\<close>

record video =
  currentTime_v :: jsnum
  duration_v :: jsnum

text \<open>The module-level variables of the component that the modelled handlers touch.\<close>

record editor =
  currentTime :: jsnum
  duration :: jsnum
  captions :: "caption list"
  subtitleText :: string
  subtitlePosition_x :: jsnum
  subtitlePosition_y :: jsnum
  isDragging :: bool
  dragStart_x :: jsnum
  dragStart_y :: jsnum
  subtitleSize_width :: jsnum
  subtitleSize_height :: jsnum
  isResizing :: bool

definition initial :: editor where
  "initial = \<lparr>currentTime = Fin 0, duration = Fin 0, captions = [],
     subtitleText = ''Your subtitle text here'',
     subtitlePosition_x = Fin 50, subtitlePosition_y = Fin 15,
     isDragging = False, dragStart_x = Fin 0, dragStart_y = Fin 0,
     subtitleSize_width = Fin 300, subtitleSize_height = Fin 60,
     isResizing = False\<rparr>"

section \<open>The time-update handler\<close>

text \<open>
  \<^verbatim>\<open>handleTimeUpdate\<close>: nothing happens while \<^verbatim>\<open>videoElement\<close> is unset (\<open>None\<close>).
  Otherwise every caption is copied with \<^verbatim>\<open>active\<close> recomputed, and the text of the
  first active caption (\<^verbatim>\<open>find\<close>) becomes the subtitle text, the empty string if there
  is none.
\<close>

definition mark :: "jsnum \<Rightarrow> caption \<Rightarrow> caption" where
  "mark t c = c\<lparr>active_c := jge t (toNumber (start_c c)) \<and> jle t (toNumber (end_c c))\<rparr>"

definition handleTimeUpdate :: "video option \<Rightarrow> editor \<Rightarrow> editor" where
  "handleTimeUpdate videoElement st =
     (case videoElement of
        None \<Rightarrow> st
      | Some v \<Rightarrow>
          (let t = currentTime_v v;
               d = (if truthy (duration_v v) then duration_v v else Fin 0);
               cs = map (mark t) (captions st);
               activeCaption = find active_c cs
           in st\<lparr>currentTime := t, duration := d, captions := cs,
                subtitleText := (case activeCaption of Some c \<Rightarrow> text_c c | None \<Rightarrow> [])\<rparr>))"

section \<open>The drag handlers of the subtitle overlay\<close>

text \<open>
  What the handlers read from a mouse event: the pointer position, whether the target
  carries the class \<^verbatim>\<open>resize-handle\<close>, and the offset size of the target's parent
  element (integers in the DOM).
\<close>

record mouse_event =
  clientX :: real
  clientY :: real
  target_resize_handle :: bool
  parent_offsetWidth :: int
  parent_offsetHeight :: int

text \<open>The bounding rectangle of the video's parent element.\<close>

record rect =
  width_r :: real
  height_r :: real

text \<open>
  \<^verbatim>\<open>handleSubtitleMouseDown\<close>: sets one flag, never reads or clears the other, and always
  recomputes \<^verbatim>\<open>dragStart\<close>.
\<close>

definition handleSubtitleMouseDown :: "mouse_event \<Rightarrow> editor \<Rightarrow> editor" where
  "handleSubtitleMouseDown e st =
     (let st1 = (if target_resize_handle e then st\<lparr>isResizing := True\<rparr>
                 else st\<lparr>isDragging := True\<rparr>)
      in st1\<lparr>dragStart_x :=
                jsub (Fin (clientX e))
                  (jmul (jdiv (subtitlePosition_x st1) (Fin 100))
                     (Fin (of_int (parent_offsetWidth e)))),
              dragStart_y :=
                jsub (Fin (clientY e))
                  (jmul (jdiv (jsub (Fin 100) (subtitlePosition_y st1)) (Fin 100))
                     (Fin (of_int (parent_offsetHeight e))))\<rparr>)"

text \<open>
  \<^verbatim>\<open>handleMouseMove\<close>: the second argument is \<^verbatim>\<open>videoElement?.parentElement\<close> as its
  bounding rectangle, \<open>None\<close> when there is no such element. Only the dragging branch
  exists; a move while only \<^verbatim>\<open>isResizing\<close> is set changes nothing.
\<close>

definition handleMouseMove :: "mouse_event \<Rightarrow> rect option \<Rightarrow> editor \<Rightarrow> editor" where
  "handleMouseMove e container st =
     (if \<not> isDragging st \<and> \<not> isResizing st then st
      else case container of
        None \<Rightarrow> st
      | Some r \<Rightarrow>
          if isDragging st then
            (let x = jmul (jdiv (jsub (Fin (clientX e)) (dragStart_x st)) (Fin (width_r r)))
                       (Fin 100);
                 y = jsub (Fin 100)
                       (jmul (jdiv (jsub (Fin (clientY e)) (dragStart_y st)) (Fin (height_r r)))
                          (Fin 100))
             in st\<lparr>subtitlePosition_x := Math_max (Fin 10) (Math_min (Fin 90) x),
                   subtitlePosition_y := Math_max (Fin 10) (Math_min (Fin 90) y)\<rparr>)
          else st)"

definition handleMouseUp :: "editor \<Rightarrow> editor" where
  "handleMouseUp st = st\<lparr>isDragging := False, isResizing := False\<rparr>"

text \<open>The pointer events the component listens to, and a run over a sequence of them.\<close>

datatype event =
  PointerDown mouse_event
| PointerMove mouse_event "rect option"
| PointerUp

fun step :: "editor \<Rightarrow> event \<Rightarrow> editor" where
  "step st (PointerDown e) = handleSubtitleMouseDown e st"
| "step st (PointerMove e container) = handleMouseMove e container st"
| "step st PointerUp = handleMouseUp st"

definition run :: "editor \<Rightarrow> event list \<Rightarrow> editor" where
  "run st evs = foldl step st evs"

section \<open>Strings\<close>

text \<open>
  A string is a list of code units, here those below 256. The white space that
  \<^verbatim>\<open>trim\<close> and \<^verbatim>\<open>parseInt\<close> skip is, in that range: tab, line feed, vertical tab, form
  feed, carriage return, space and the no-break space.
\<close>

definition isWhiteSpace :: "char \<Rightarrow> bool" where
  "isWhiteSpace c = (c \<in> set [CHR 0x09, CHR 0x0A, CHR 0x0B, CHR 0x0C, CHR 0x0D, CHR 0x20, CHR 0xA0])"

definition trim :: "string \<Rightarrow> string" where
  "trim s = rev (dropWhile isWhiteSpace (rev (dropWhile isWhiteSpace s)))"

definition isDigit :: "char \<Rightarrow> bool" where
  "isDigit c = (48 \<le> (of_char c :: nat) \<and> (of_char c :: nat) \<le> 57)"

definition digitValue :: "char \<Rightarrow> nat" where
  "digitValue c = of_char c - 48"

definition decimal :: "string \<Rightarrow> nat" where
  "decimal z = foldl (\<lambda>a c. 10 * a + digitValue c) 0 z"

text \<open>
  \<^verbatim>\<open>parseInt(s, 10)\<close>: leading white space is skipped, one sign is accepted, then the
  longest run of decimal digits is read and whatever follows is ignored; without a digit
  the result is \<open>NaN\<close>.
\<close>

definition parseInt :: "string \<Rightarrow> jsnum" where
  "parseInt s =
     (let s1 = dropWhile isWhiteSpace s;
          negative = (s1 \<noteq> [] \<and> hd s1 = CHR ''-'');
          s2 = (if s1 \<noteq> [] \<and> (hd s1 = CHR ''+'' \<or> hd s1 = CHR ''-'') then tl s1 else s1);
          z = takeWhile isDigit s2
      in if z = [] then NaN
         else if negative then Fin (- of_nat (decimal z)) else Fin (of_nat (decimal z)))"

text \<open>\<^verbatim>\<open>ToString\<close> of a value that is a string or \<open>undefined\<close>.\<close>

fun toString :: "string option \<Rightarrow> string" where
  "toString None = ''undefined''"
| "toString (Some s) = s"

text \<open>
  \<^verbatim>\<open>s.split(sep)\<close> for a string separator: the pieces between the leftmost
  non-overlapping occurrences of \<open>sep\<close>; an empty separator gives the single code units.
\<close>

function splitStr :: "string \<Rightarrow> string \<Rightarrow> string \<Rightarrow> string list" where
  "splitStr sep cur [] = [cur]"
| "splitStr sep cur (c # cs) =
     (if sep \<noteq> [] \<and> take (length sep) (c # cs) = sep
      then cur # splitStr sep [] (drop (length sep) (c # cs))
      else splitStr sep (cur @ [c]) cs)"
  by pat_completeness auto
termination
  by (relation "measure (\<lambda>(sep, cur, s). length s)") auto

definition split :: "string \<Rightarrow> string \<Rightarrow> string list" where
  "split s sep = (if sep = [] then map (\<lambda>c. [c]) s else splitStr sep [] s)"

text \<open>
  \<^verbatim>\<open>s.split(/\r?\n/)\<close>: a line ends at a line feed, with the carriage return just
  before it when there is one; the piece after the last line feed is a line too, so the
  result is never empty.
\<close>

fun splitLines :: "string \<Rightarrow> string \<Rightarrow> string list" where
  "splitLines cur [] = [cur]"
| "splitLines cur [c] = (if c = CHR 0x0A then [cur, []] else [cur @ [c]])"
| "splitLines cur (c # d # cs) =
     (if c = CHR 0x0A then cur # splitLines [] (d # cs)
      else if c = CHR 0x0D \<and> d = CHR 0x0A then cur # splitLines [] cs
      else splitLines (cur @ [c]) (d # cs))"

text \<open>\<^verbatim>\<open>s.includes(sub)\<close>.\<close>

fun includes_str :: "string \<Rightarrow> string \<Rightarrow> bool" where
  "includes_str [] sub = (sub = [])"
| "includes_str (c # cs) sub = (take (length sub) (c # cs) = sub \<or> includes_str cs sub)"

text \<open>Array destructuring: the element at an index, \<open>undefined\<close> beyond the end.\<close>

definition element :: "'a list \<Rightarrow> nat \<Rightarrow> 'a option" where
  "element xs i = (if i < length xs then Some (xs ! i) else None)"

section \<open>The timecode converter and the parser\<close>

text \<open>
  The only failure of the parser: \<^verbatim>\<open>secondsAndMillis.split(',')\<close> on \<open>undefined\<close>
  throws a \<^verbatim>\<open>TypeError\<close>.
\<close>

datatype error = TypeError

text \<open>
  \<^verbatim>\<open>srtTimeToSeconds\<close>: the first three pieces between colons are taken, and the first
  two pieces between commas of the third; a missing piece is \<open>undefined\<close>, which
  \<^verbatim>\<open>parseInt\<close> reads as the string \<^verbatim>\<open>undefined\<close>. The sum associates to the left.
\<close>

definition srtTimeToSeconds :: "string \<Rightarrow> error + jsnum" where
  "srtTimeToSeconds srtTime =
     (let parts = split srtTime '':'';
          hours = element parts 0;
          minutes = element parts 1;
          secondsAndMillis = element parts 2
      in case secondsAndMillis of
           None \<Rightarrow> Inl TypeError
         | Some sm \<Rightarrow>
             (let parts2 = split sm '','';
                  seconds = element parts2 0;
                  millis = element parts2 1
              in Inr (jadd (jadd (jadd (jmul (parseInt (toString hours)) (Fin 3600))
                                       (jmul (parseInt (toString minutes)) (Fin 60)))
                                 (parseInt (toString seconds)))
                           (jdiv (parseInt (toString millis)) (Fin 1000)))))"

text \<open>The variables of the loop in \<^verbatim>\<open>parseSrt\<close>.\<close>

record pstate =
  parsedCaptions :: "caption list"
  currentCaption :: "caption option"
  idCounter :: nat

definition pinit :: pstate where
  "pinit = \<lparr>parsedCaptions = [], currentCaption = None, idCounter = 1\<rparr>"

text \<open>The commit test \<^verbatim>\<open>currentCaption && currentCaption.text.trim() !== ''\<close> and push.\<close>

definition commit :: "pstate \<Rightarrow> caption list" where
  "commit st =
     (case currentCaption st of
        None \<Rightarrow> parsedCaptions st
      | Some c \<Rightarrow> if trim (text_c c) \<noteq> [] then parsedCaptions st @ [c] else parsedCaptions st)"

text \<open>
  One iteration of the loop body, on one line. The branches are tested in the order of
  the source: blank line, no current caption, time-range line, text line. On a
  time-range line the first two pieces of the split are converted; a failing conversion
  aborts the whole loop, as the exception does. A missing piece would make the converter
  throw on \<open>undefined\<close>; this branch is never taken, since a line with the token has at
  least two pieces (\<open>time_line_two_parts\<close> below).
\<close>

definition parseLine :: "pstate \<Rightarrow> string \<Rightarrow> error + pstate" where
  "parseLine st line =
     (if trim line = [] then
        Inr (st\<lparr>parsedCaptions := commit st, currentCaption := None\<rparr>)
      else case currentCaption st of
        None \<Rightarrow>
          Inr (st\<lparr>currentCaption :=
                     Some \<lparr>id_c = idCounter st, text_c = [], active_c = False,
                           start_c = None, end_c = None\<rparr>,
                   idCounter := idCounter st + 1\<rparr>)
      | Some c \<Rightarrow>
          if includes_str line ''-->'' then
            (let ts = map trim (split line ''-->'');
                 startTime = element ts 0;
                 endTime = element ts 1
             in case (startTime, endTime) of
                  (Some s, Some e) \<Rightarrow>
                    (case srtTimeToSeconds s of
                       Inl err \<Rightarrow> Inl err
                     | Inr a \<Rightarrow>
                         (case srtTimeToSeconds e of
                            Inl err \<Rightarrow> Inl err
                          | Inr b \<Rightarrow>
                              Inr (st\<lparr>currentCaption :=
                                         Some (c\<lparr>start_c := Some a, end_c := Some b\<rparr>)\<rparr>)))
                | _ \<Rightarrow> Inl TypeError)
          else
            Inr (st\<lparr>currentCaption :=
                       Some (c\<lparr>text_c := text_c c @ (if text_c c = [] then [] else [CHR 0x0A])
                                            @ trim line\<rparr>)\<rparr>))"

fun parseLoop :: "pstate \<Rightarrow> string list \<Rightarrow> error + pstate" where
  "parseLoop st [] = Inr st"
| "parseLoop st (line # lines) =
     (case parseLine st line of
        Inl err \<Rightarrow> Inl err
      | Inr st' \<Rightarrow> parseLoop st' lines)"

definition parseSrt :: "string \<Rightarrow> error + caption list" where
  "parseSrt srtContent =
     (case parseLoop pinit (splitLines [] srtContent) of
        Inl err \<Rightarrow> Inl err
      | Inr st \<Rightarrow> Inr (commit st))"

section \<open>Example data\<close>

text \<open>The two captions of the specification's example, A on 0..2 and B on 2..4.\<close>

definition example_captions :: "caption list" where
  "example_captions =
     [\<lparr>id_c = 1, text_c = ''A'', active_c = False, start_c = Some (Fin 0), end_c = Some (Fin 2)\<rparr>,
      \<lparr>id_c = 2, text_c = ''B'', active_c = False, start_c = Some (Fin 2), end_c = Some (Fin 4)\<rparr>]"

text \<open>A caption without timing, as the parser returns it, followed by the caption A.\<close>

definition untimed_then_timed :: "caption list" where
  "untimed_then_timed =
     [\<lparr>id_c = 1, text_c = ''hello\<newline>world'', active_c = False, start_c = None, end_c = None\<rparr>,
      \<lparr>id_c = 2, text_c = ''A'', active_c = False, start_c = Some (Fin 0), end_c = Some (Fin 2)\<rparr>]"

section \<open>Predicates and example data for the overlay positioner\<close>



fun bracketed :: "bool \<Rightarrow> event list \<Rightarrow> bool" where
  "bracketed inSession [] = True"
| "bracketed inSession (PointerDown e # evs) = (\<not> inSession \<and> bracketed True evs)"
| "bracketed inSession (PointerMove e container # evs) = bracketed inSession evs"
| "bracketed inSession (PointerUp # evs) = bracketed False evs"

definition down_body :: mouse_event where
  "down_body = \<lparr>clientX = 200, clientY = 680, target_resize_handle = False,
     parent_offsetWidth = 400, parent_offsetHeight = 800\<rparr>"

definition down_handle :: mouse_event where
  "down_handle = \<lparr>clientX = 350, clientY = 700, target_resize_handle = True,
     parent_offsetWidth = 300, parent_offsetHeight = 60\<rparr>"

definition move_to :: "real \<Rightarrow> real \<Rightarrow> mouse_event" where
  "move_to px py = \<lparr>clientX = px, clientY = py, target_resize_handle = False,
     parent_offsetWidth = 400, parent_offsetHeight = 800\<rparr>"

definition container :: "real \<Rightarrow> real \<Rightarrow> rect option" where
  "container w h = Some \<lparr>width_r = w, height_r = h\<rparr>"






section \<open>Predicates for the parser\<close>



fun joinLines :: "string list \<Rightarrow> string" where
  "joinLines [] = []"
| "joinLines [x] = x"
| "joinLines (x # y # ys) = x @ CHR 0x0A # joinLines (y # ys)"

definition textLine :: "string \<Rightarrow> bool" where
  "textLine t = (trim t \<noteq> [] \<and> \<not> includes_str t ''-->'')"

definition newCaption :: "nat \<Rightarrow> caption" where
  "newCaption n = \<lparr>id_c = n, text_c = [], active_c = False, start_c = None, end_c = None\<rparr>"

text \<open>
  A line as it can stand between two line feeds of the input: it holds no line feed and
  does not end in a carriage return (which the pattern of \<^verbatim>\<open>split\<close> would take as
  part of the line break).
\<close>

definition plainLine :: "string \<Rightarrow> bool" where
  "plainLine l = (CHR 0x0A \<notin> set l \<and> \<not> (l \<noteq> [] \<and> last l = CHR 0x0D))"

section \<open>Properties of the time-update handler\<close>

lemma jge_Fin [simp]: "jge (Fin a) (Fin b) = (b \<le> a)"
  by (simp add: jge_def)

lemma captions_handleTimeUpdate:
  "captions (handleTimeUpdate (Some v) st) = map (mark (currentTime_v v)) (captions st)"
  by (simp add: handleTimeUpdate_def Let_def)

lemma subtitleText_handleTimeUpdate:
  "subtitleText (handleTimeUpdate (Some v) st) =
     (case find active_c (map (mark (currentTime_v v)) (captions st)) of
        Some c \<Rightarrow> text_c c | None \<Rightarrow> [])"
  by (simp add: handleTimeUpdate_def Let_def)

text \<open>
  Claim C1. After a time update on a bound video element, the caption sequence has the
  same length; each caption is active exactly when \<^verbatim>\<open>currentTime >= start\<close> and
  \<^verbatim>\<open>currentTime <= end\<close> hold, tested on that caption alone, with its other fields
  kept; the subtitle text is the text of the first active caption in sequence order, and
  the empty string when no caption is active. On finite numbers the two tests are the
  inclusive comparisons of the reals (\<open>jge_Fin\<close>, \<open>jle.simps\<close>).
\<close>

theorem onTimeUpdate_active_first:
  assumes "handleTimeUpdate (Some v) st = st'"
  shows "length (captions st') = length (captions st) \<and>
         (\<forall>i < length (captions st).
            active_c (captions st' ! i) =
              (jge (currentTime_v v) (toNumber (start_c (captions st ! i))) \<and>
               jle (currentTime_v v) (toNumber (end_c (captions st ! i)))) \<and>
            id_c (captions st' ! i) = id_c (captions st ! i) \<and>
            text_c (captions st' ! i) = text_c (captions st ! i) \<and>
            start_c (captions st' ! i) = start_c (captions st ! i) \<and>
            end_c (captions st' ! i) = end_c (captions st ! i)) \<and>
         (\<forall>i < length (captions st).
            active_c (captions st' ! i) \<and> (\<forall>j < i. \<not> active_c (captions st' ! j))
              \<longrightarrow> subtitleText st' = text_c (captions st ! i)) \<and>
         ((\<forall>i < length (captions st). \<not> active_c (captions st' ! i))
              \<longrightarrow> subtitleText st' = [])"
proof -
  let ?t = "currentTime_v v"
  let ?cs = "map (mark ?t) (captions st)"
  have cs: "captions st' = ?cs"
    using assms captions_handleTimeUpdate by blast
  have tx: "subtitleText st' = (case find active_c ?cs of Some c \<Rightarrow> text_c c | None \<Rightarrow> [])"
    using assms subtitleText_handleTimeUpdate by blast
  have len: "length (captions st') = length (captions st)"
    by (simp add: cs)
  have fields: "\<forall>i < length (captions st).
            active_c (captions st' ! i) =
              (jge ?t (toNumber (start_c (captions st ! i))) \<and>
               jle ?t (toNumber (end_c (captions st ! i)))) \<and>
            id_c (captions st' ! i) = id_c (captions st ! i) \<and>
            text_c (captions st' ! i) = text_c (captions st ! i) \<and>
            start_c (captions st' ! i) = start_c (captions st ! i) \<and>
            end_c (captions st' ! i) = end_c (captions st ! i)"
    by (simp add: cs mark_def)
  have first: "\<forall>i < length (captions st).
            active_c (captions st' ! i) \<and> (\<forall>j < i. \<not> active_c (captions st' ! j))
              \<longrightarrow> subtitleText st' = text_c (captions st ! i)"
  proof (intro allI impI)
    fix i
    assume i: "i < length (captions st)"
      and a: "active_c (captions st' ! i) \<and> (\<forall>j < i. \<not> active_c (captions st' ! j))"
    have "find active_c ?cs = Some (?cs ! i)"
      unfolding find_Some_iff using i a cs by auto
    then have "subtitleText st' = text_c (?cs ! i)"
      by (simp add: tx)
    then show "subtitleText st' = text_c (captions st ! i)"
      using i by (simp add: mark_def)
  qed
  have none: "(\<forall>i < length (captions st). \<not> active_c (captions st' ! i))
              \<longrightarrow> subtitleText st' = []"
  proof
    assume n: "\<forall>i < length (captions st). \<not> active_c (captions st' ! i)"
    have "find active_c ?cs = None"
      unfolding find_None_iff using n cs len by (metis in_set_conv_nth)
    then show "subtitleText st' = []"
      by (simp add: tx)
  qed
  from len fields first none show ?thesis by blast
qed

text \<open>
  The example of the specification: with the captions A on 0..2 and B on 2..4, a time
  update at 2 shows A (both are active, the first wins) and one at 5 shows nothing.
\<close>

theorem onTimeUpdate_active_first_witness:
  "active_c (captions (handleTimeUpdate (Some \<lparr>currentTime_v = Fin 2, duration_v = Fin 10\<rparr>)
       (initial\<lparr>captions := example_captions\<rparr>)) ! 0) \<and>
   active_c (captions (handleTimeUpdate (Some \<lparr>currentTime_v = Fin 2, duration_v = Fin 10\<rparr>)
       (initial\<lparr>captions := example_captions\<rparr>)) ! 1) \<and>
   subtitleText (handleTimeUpdate (Some \<lparr>currentTime_v = Fin 2, duration_v = Fin 10\<rparr>)
       (initial\<lparr>captions := example_captions\<rparr>)) = ''A'' \<and>
   \<not> active_c (captions (handleTimeUpdate (Some \<lparr>currentTime_v = Fin 5, duration_v = Fin 10\<rparr>)
       (initial\<lparr>captions := example_captions\<rparr>)) ! 0) \<and>
   \<not> active_c (captions (handleTimeUpdate (Some \<lparr>currentTime_v = Fin 5, duration_v = Fin 10\<rparr>)
       (initial\<lparr>captions := example_captions\<rparr>)) ! 1) \<and>
   subtitleText (handleTimeUpdate (Some \<lparr>currentTime_v = Fin 5, duration_v = Fin 10\<rparr>)
       (initial\<lparr>captions := example_captions\<rparr>)) = []"
  using onTimeUpdate_active_first [OF refl, of "\<lparr>currentTime_v = Fin 2, duration_v = Fin 10\<rparr>"
      "initial\<lparr>captions := example_captions\<rparr>"]
    onTimeUpdate_active_first [OF refl, of "\<lparr>currentTime_v = Fin 5, duration_v = Fin 10\<rparr>"
      "initial\<lparr>captions := example_captions\<rparr>"]
  by (simp add: handleTimeUpdate_def Let_def mark_def example_captions_def initial_def truthy_def)

section \<open>Properties of the overlay positioner\<close>

lemmas js_arith = jsub_def Math_max_def Math_min_def






















lemma move_zero_width:
  "isDragging st \<Longrightarrow> dragStart_x st = Fin dx \<Longrightarrow> width_r r = 0 \<Longrightarrow>
   subtitlePosition_x (handleMouseMove e (Some r) st) =
     (if clientX e = dx then NaN else if dx < clientX e then Fin 90 else Fin 10)"
  by (simp add: handleMouseMove_def Let_def js_arith)

lemma move_zero_height:
  "isDragging st \<Longrightarrow> dragStart_y st = Fin dy \<Longrightarrow> height_r r = 0 \<Longrightarrow>
   subtitlePosition_y (handleMouseMove e (Some r) st) =
     (if clientY e = dy then NaN else if dy < clientY e then Fin 10 else Fin 90)"
  by (simp add: handleMouseMove_def Let_def js_arith)

text \<open>
  Claim C8, as amended. The position computation has no guard against a zero divisor.
  While dragging with a finite \<^verbatim>\<open>dragStart\<close>, a move over a container of width zero sets
  the anchor's \<open>x\<close> to 90 when the pointer is right of \<^verbatim>\<open>dragStart.x\<close>, to 10 when it is
  left of it, and to \<open>NaN\<close> when it is on it; over a container of height zero the
  anchor's \<open>y\<close> becomes 10, 90 or \<open>NaN\<close> in the same three cases for \<^verbatim>\<open>dragStart.y\<close>.
\<close>

theorem drag_move_zero_container:
  assumes "isDragging st" and "dragStart_x st = Fin dx" and "dragStart_y st = Fin dy"
  shows "(width_r r = 0 \<longrightarrow>
            subtitlePosition_x (handleMouseMove e (Some r) st) =
              (if clientX e = dx then NaN else if dx < clientX e then Fin 90 else Fin 10)) \<and>
         (height_r r = 0 \<longrightarrow>
            subtitlePosition_y (handleMouseMove e (Some r) st) =
              (if clientY e = dy then NaN else if dy < clientY e then Fin 10 else Fin 90))"
  using assms move_zero_width [of st dx r e] move_zero_height [of st dy r e]
  by blast

text \<open>
  After the pointer-down of the example, a move to (10,10) over an empty container puts
  the anchor at (90,10).
\<close>

theorem drag_move_zero_container_witness:
  "isDragging (handleSubtitleMouseDown down_body initial) \<and>
   dragStart_x (handleSubtitleMouseDown down_body initial) = Fin 0 \<and>
   dragStart_y (handleSubtitleMouseDown down_body initial) = Fin 0 \<and>
   width_r \<lparr>width_r = 0, height_r = 0\<rparr> = 0 \<and>
   height_r \<lparr>width_r = 0, height_r = 0\<rparr> = 0 \<and>
   subtitlePosition_x (handleMouseMove (move_to 10 10) (container 0 0)
       (handleSubtitleMouseDown down_body initial)) = Fin 90 \<and>
   subtitlePosition_y (handleMouseMove (move_to 10 10) (container 0 0)
       (handleSubtitleMouseDown down_body initial)) = Fin 10"
proof -
  have d: "isDragging (handleSubtitleMouseDown down_body initial)"
    and dx: "dragStart_x (handleSubtitleMouseDown down_body initial) = Fin 0"
    and dy: "dragStart_y (handleSubtitleMouseDown down_body initial) = Fin 0"
    by (simp_all add: handleSubtitleMouseDown_def Let_def js_arith initial_def down_body_def)
  from drag_move_zero_container [OF d dx dy, of "\<lparr>width_r = 0, height_r = 0\<rparr>" "move_to 10 10"]
  show ?thesis
    using d dx dy by (simp add: container_def move_to_def)
qed

text \<open>
  Claim C8 as stated fails: after the pointer-down of the example the anchor is (50,15);
  a move to (0,0) over a container of width and height zero changes it to
  (\<open>NaN\<close>, \<open>NaN\<close>).
\<close>

theorem drag_zero_container_counterexample:
  "subtitlePosition_x (run initial [PointerDown down_body]) = Fin 50 \<and>
   subtitlePosition_y (run initial [PointerDown down_body]) = Fin 15 \<and>
   isDragging (run initial [PointerDown down_body]) \<and>
   subtitlePosition_x (run initial
       [PointerDown down_body, PointerMove (move_to 0 0) (container 0 0)]) = NaN \<and>
   subtitlePosition_y (run initial
       [PointerDown down_body, PointerMove (move_to 0 0) (container 0 0)]) = NaN"
  by (simp add: run_def handleSubtitleMouseDown_def handleMouseMove_def Let_def js_arith
      initial_def down_body_def move_to_def container_def)

lemma size_step:
  "subtitleSize_width (step st ev) = subtitleSize_width st \<and>
   subtitleSize_height (step st ev) = subtitleSize_height st"
  by (cases ev)
    (simp_all add: handleSubtitleMouseDown_def handleMouseMove_def handleMouseUp_def Let_def
      split: option.split)

lemma size_run:
  "subtitleSize_width (run st evs) = subtitleSize_width st \<and>
   subtitleSize_height (run st evs) = subtitleSize_height st"
  unfolding run_def
  by (induction evs arbitrary: st) (simp_all add: size_step)

lemma resize_only_move: "isResizing st \<Longrightarrow> \<not> isDragging st \<Longrightarrow> handleMouseMove e c st = st"
  by (simp add: handleMouseMove_def split: option.split)

text \<open>
  Claim C7, as amended. A pointer-move while only \<^verbatim>\<open>isResizing\<close> is set leaves the whole
  state as it is. No pointer event changes \<^verbatim>\<open>subtitleSize\<close>, so after every sequence of
  events from the initial state the size is still 300 by 60, hence positive.
\<close>

theorem resize_move_changes_nothing:
  "(isResizing st \<and> \<not> isDragging st \<longrightarrow> handleMouseMove e c st = st) \<and>
   subtitleSize_width (step st ev) = subtitleSize_width st \<and>
   subtitleSize_height (step st ev) = subtitleSize_height st \<and>
   subtitleSize_width (run initial evs) = Fin 300 \<and>
   subtitleSize_height (run initial evs) = Fin 60"
  using resize_only_move [of st e c] size_step [of st ev] size_run [of initial evs]
  by (simp add: initial_def)

text \<open>
  A pointer-down on a resize handle starts a resizing session, and a move in it changes
  nothing.
\<close>

theorem resize_move_changes_nothing_witness:
  "isResizing (handleSubtitleMouseDown down_handle initial) \<and>
   \<not> isDragging (handleSubtitleMouseDown down_handle initial) \<and>
   handleMouseMove (move_to 400 750) (container 400 800)
       (handleSubtitleMouseDown down_handle initial) =
     handleSubtitleMouseDown down_handle initial"
  using resize_move_changes_nothing [of "handleSubtitleMouseDown down_handle initial"
      "move_to 400 750" "container 400 800" PointerUp "[]"]
  by (simp add: handleSubtitleMouseDown_def Let_def initial_def down_handle_def)

text \<open>
  Claim C7 as stated fails: the move in a resizing session does not adjust the size,
  which is 300 by 60 before it and after it.
\<close>

theorem resize_move_counterexample:
  "isResizing (run initial [PointerDown down_handle]) \<and>
   subtitleSize_width (run initial [PointerDown down_handle]) = Fin 300 \<and>
   subtitleSize_height (run initial [PointerDown down_handle]) = Fin 60 \<and>
   subtitleSize_width (run initial
       [PointerDown down_handle, PointerMove (move_to 400 750) (container 400 800)]) = Fin 300 \<and>
   subtitleSize_height (run initial
       [PointerDown down_handle, PointerMove (move_to 400 750) (container 400 800)]) = Fin 60"
  by (simp add: run_def handleSubtitleMouseDown_def handleMouseMove_def Let_def
      initial_def down_handle_def move_to_def container_def)

lemma down_flags:
  "isDragging (handleSubtitleMouseDown e st) = (isDragging st \<or> \<not> target_resize_handle e) \<and>
   isResizing (handleSubtitleMouseDown e st) = (isResizing st \<or> target_resize_handle e)"
  by (simp add: handleSubtitleMouseDown_def Let_def)

lemma down_dragStart_any:
  "dragStart_x (handleSubtitleMouseDown e st) =
     jsub (Fin (clientX e))
       (jmul (jdiv (subtitlePosition_x st) (Fin 100)) (Fin (of_int (parent_offsetWidth e)))) \<and>
   dragStart_y (handleSubtitleMouseDown e st) =
     jsub (Fin (clientY e))
       (jmul (jdiv (jsub (Fin 100) (subtitlePosition_y st)) (Fin 100))
          (Fin (of_int (parent_offsetHeight e))))"
  by (simp add: handleSubtitleMouseDown_def Let_def)

lemma up_flags: "\<not> isDragging (handleMouseUp st) \<and> \<not> isResizing (handleMouseUp st)"
  by (simp add: handleMouseUp_def)

lemma move_flags:
  "isDragging (handleMouseMove e c st) = isDragging st \<and>
   isResizing (handleMouseMove e c st) = isResizing st"
  by (simp add: handleMouseMove_def Let_def split: option.split)

lemma bracketed_exclusive:
  "bracketed b evs \<Longrightarrow> b = (isDragging st \<or> isResizing st) \<Longrightarrow>
   \<not> (isDragging st \<and> isResizing st) \<Longrightarrow>
   \<not> (isDragging (run st evs) \<and> isResizing (run st evs))"
proof (induction b evs arbitrary: st rule: bracketed.induct)
  case (1 inSession)
  then show ?case by (simp add: run_def)
next
  case (2 inSession e evs)
  from "2.prems" have idle: "\<not> isDragging st" "\<not> isResizing st" and rest: "bracketed True evs"
    by auto
  have "\<not> (isDragging (run (handleSubtitleMouseDown e st) evs) \<and>
            isResizing (run (handleSubtitleMouseDown e st) evs))"
    by (rule "2.IH" [OF rest]) (use idle in \<open>auto simp: down_flags\<close>)
  then show ?case by (simp add: run_def)
next
  case (3 inSession e container evs)
  from "3.prems" have rest: "bracketed inSession evs" by simp
  have "\<not> (isDragging (run (handleMouseMove e container st) evs) \<and>
            isResizing (run (handleMouseMove e container st) evs))"
    by (rule "3.IH" [OF rest]) (use "3.prems" in \<open>auto simp: move_flags\<close>)
  then show ?case by (simp add: run_def)
next
  case (4 inSession evs)
  from "4.prems" have rest: "bracketed False evs" by simp
  have "\<not> (isDragging (run (handleMouseUp st) evs) \<and> isResizing (run (handleMouseUp st) evs))"
    by (rule "4.IH" [OF rest]) (auto simp: up_flags)
  then show ?case by (simp add: run_def)
qed

text \<open>
  Claim C9, as amended. A pointer-down is never ignored: it sets the flag of its target
  (\<^verbatim>\<open>isResizing\<close> on a resize handle, \<^verbatim>\<open>isDragging\<close> elsewhere), keeps the other flag as
  it was, and recaptures \<^verbatim>\<open>dragStart\<close> from the current pointer and anchor. A pointer-up
  clears both flags. From the initial state, every sequence of events in which no
  pointer-down arrives during a session leaves at most one of the two flags set.
\<close>

theorem pointer_down_not_guarded:
  "isDragging (handleSubtitleMouseDown e st) = (isDragging st \<or> \<not> target_resize_handle e) \<and>
   isResizing (handleSubtitleMouseDown e st) = (isResizing st \<or> target_resize_handle e) \<and>
   dragStart_x (handleSubtitleMouseDown e st) =
     jsub (Fin (clientX e))
       (jmul (jdiv (subtitlePosition_x st) (Fin 100)) (Fin (of_int (parent_offsetWidth e)))) \<and>
   dragStart_y (handleSubtitleMouseDown e st) =
     jsub (Fin (clientY e))
       (jmul (jdiv (jsub (Fin 100) (subtitlePosition_y st)) (Fin 100))
          (Fin (of_int (parent_offsetHeight e)))) \<and>
   \<not> isDragging (handleMouseUp st) \<and> \<not> isResizing (handleMouseUp st) \<and>
   (bracketed False evs \<longrightarrow>
      \<not> (isDragging (run initial evs) \<and> isResizing (run initial evs)))"
  using down_flags [of e st] down_dragStart_any [of e st] up_flags [of st]
    bracketed_exclusive [of False evs initial]
  by (simp add: initial_def)

text \<open>
  A drag session ended by a pointer-up and followed by a pointer-down on a resize handle
  leaves one flag set.
\<close>

theorem pointer_down_not_guarded_witness:
  "bracketed False [PointerDown down_body, PointerMove (move_to 250 680) (container 400 800),
       PointerUp, PointerDown down_handle] \<and>
   \<not> (isDragging (run initial [PointerDown down_body,
          PointerMove (move_to 250 680) (container 400 800), PointerUp, PointerDown down_handle]) \<and>
       isResizing (run initial [PointerDown down_body,
          PointerMove (move_to 250 680) (container 400 800), PointerUp, PointerDown down_handle]))"
  using pointer_down_not_guarded [of down_body initial
      "[PointerDown down_body, PointerMove (move_to 250 680) (container 400 800),
        PointerUp, PointerDown down_handle]"]
  by simp

text \<open>
  Claim C9 as stated fails: a pointer-down on a resize handle during a drag session sets
  \<^verbatim>\<open>isResizing\<close> beside \<^verbatim>\<open>isDragging\<close> and moves \<^verbatim>\<open>dragStart.x\<close> from 0 to 200.
\<close>

theorem pointer_down_in_session_counterexample:
  "isDragging (run initial [PointerDown down_body]) \<and>
   \<not> isResizing (run initial [PointerDown down_body]) \<and>
   dragStart_x (run initial [PointerDown down_body]) = Fin 0 \<and>
   isDragging (run initial [PointerDown down_body, PointerDown down_handle]) \<and>
   isResizing (run initial [PointerDown down_body, PointerDown down_handle]) \<and>
   dragStart_x (run initial [PointerDown down_body, PointerDown down_handle]) = Fin 200"
  by (simp add: run_def handleSubtitleMouseDown_def Let_def js_arith
      initial_def down_body_def down_handle_def)

section \<open>Properties of the timecode converter\<close>

lemma splitStr_char_notin:
  "c0 \<notin> set h \<Longrightarrow> splitStr [c0] cur h = [cur @ h]"
  by (induction h arbitrary: cur) auto


lemma length_splitStr_char:
  "length (splitStr [c0] cur s) = Suc (count_list s c0)"
  by (induction s arbitrary: cur) auto

lemma jadd_NaN_right [simp]: "jadd a NaN = NaN"
  by (cases a) simp_all





lemma parseInt_undefined: "parseInt ''undefined'' = NaN"
  by (simp add: parseInt_def isWhiteSpace_def isDigit_def)


lemma decimal_snoc: "decimal (z @ [c]) = 10 * decimal z + digitValue c"
  by (simp add: decimal_def)

lemma srtTimeToSeconds_TypeError:
  "(srtTimeToSeconds s = Inl TypeError) = (count_list s (CHR '':'') < 2)"
proof -
  have "length (split s '':'') = Suc (count_list s (CHR '':''))"
    by (simp add: split_def length_splitStr_char)
  then show ?thesis
    by (auto simp: srtTimeToSeconds_def Let_def element_def split: option.splits)
qed

lemma srtTimeToSeconds_no_comma:
  assumes "2 \<le> count_list s (CHR '':'')" and "CHR '','' \<notin> set (split s '':'' ! 2)"
  shows "srtTimeToSeconds s = Inr NaN"
proof -
  have len: "length (split s '':'') = Suc (count_list s (CHR '':''))"
    by (simp add: split_def length_splitStr_char)
  have "split (split s '':'' ! 2) '','' = [split s '':'' ! 2]"
    using splitStr_char_notin [OF assms(2), of "[]"] by (simp add: split_def)
  then show ?thesis
    using len assms(1)
    by (simp add: srtTimeToSeconds_def Let_def element_def parseInt_undefined)
qed



text \<open>
  Claim C6, as amended. The converter raises exactly when the input has fewer than two
  colons, and what it raises is a \<^verbatim>\<open>TypeError\<close> (from \<^verbatim>\<open>split\<close> on \<open>undefined\<close>), not a
  format error of its own. Every other input returns a number value; when the third
  colon-separated piece has no comma, that value is \<open>NaN\<close>.
\<close>

theorem timecode_failure:
  "(srtTimeToSeconds s = Inl TypeError) = (count_list s (CHR '':'') < 2) \<and>
   (2 \<le> count_list s (CHR '':'') \<longrightarrow> (\<exists>v. srtTimeToSeconds s = Inr v)) \<and>
   (2 \<le> count_list s (CHR '':'') \<and> CHR '','' \<notin> set (split s '':'' ! 2) \<longrightarrow>
      srtTimeToSeconds s = Inr NaN)"
proof -
  have a: "(srtTimeToSeconds s = Inl TypeError) = (count_list s (CHR '':'') < 2)"
    by (rule srtTimeToSeconds_TypeError)
  have b: "2 \<le> count_list s (CHR '':'') \<longrightarrow> (\<exists>v. srtTimeToSeconds s = Inr v)"
  proof
    assume "2 \<le> count_list s (CHR '':'')"
    with a have "srtTimeToSeconds s \<noteq> Inl TypeError" by simp
    then show "\<exists>v. srtTimeToSeconds s = Inr v"
      by (cases "srtTimeToSeconds s") (auto intro: error.exhaust)
  qed
  from a b srtTimeToSeconds_no_comma [of s] show ?thesis by blast
qed

text \<open>
  Two colons and no comma give \<open>NaN\<close>; a single colon raises.
\<close>

theorem timecode_failure_witness:
  "2 \<le> count_list ''1:2:3'' (CHR '':'') \<and> CHR '','' \<notin> set (split ''1:2:3'' '':'' ! 2) \<and>
   srtTimeToSeconds ''1:2:3'' = Inr NaN \<and>
   count_list ''00:01'' (CHR '':'') < 2 \<and> srtTimeToSeconds ''00:01'' = Inl TypeError"
  using timecode_failure [of "''1:2:3''"] timecode_failure [of "''00:01''"]
  by (simp add: split_def)

text \<open>
  Claim C6 as stated fails: \<^verbatim>\<open>00:01:02\<close> lacks the comma separator, and the converter
  does not fail on it.
\<close>

theorem timecode_missing_comma_counterexample:
  "CHR '','' \<notin> set ''00:01:02'' \<and> srtTimeToSeconds ''00:01:02'' = Inr NaN"
  by (simp add: srtTimeToSeconds_def split_def element_def parseInt_def isWhiteSpace_def
      isDigit_def decimal_def digitValue_def)

section \<open>Properties of the parser\<close>














lemma splitStr_nonempty: "splitStr sep cur s \<noteq> []"
  by (induction sep cur s rule: splitStr.induct) auto

lemma length_splitStr_includes:
  "sep \<noteq> [] \<Longrightarrow> includes_str s sep \<Longrightarrow> 2 \<le> length (splitStr sep cur s)"
proof (induction s arbitrary: cur)
  case Nil
  then show ?case by simp
next
  case (Cons c cs)
  show ?case
  proof (cases "take (length sep) (c # cs) = sep")
    case True
    have "splitStr sep [] (drop (length sep) (c # cs)) \<noteq> []"
      by (rule splitStr_nonempty)
    then have "1 \<le> length (splitStr sep [] (drop (length sep) (c # cs)))"
      by (simp add: Suc_le_eq)
    with True Cons.prems(1) show ?thesis by simp
  next
    case False
    with Cons.prems have "includes_str cs sep" by simp
    from Cons.IH [OF Cons.prems(1) this] False show ?thesis by simp
  qed
qed

text \<open>
  A line with the token \<^verbatim>\<open>-->\<close> splits into at least two pieces, so both timecodes of
  a time-range line are strings and the converter is never called on \<open>undefined\<close>.
\<close>

lemma time_line_two_parts:
  assumes "includes_str line ''-->''"
  shows "\<exists>p0 p1 rest. split line ''-->'' = p0 # p1 # rest"
proof -
  have "2 \<le> length (split line ''-->'')"
    using length_splitStr_includes [OF _ assms, of "[]"] by (simp add: split_def)
  then show ?thesis
    by (cases "split line ''-->''"; cases "tl (split line ''-->'')") simp_all
qed

lemma splitLines_plain:
  "CHR 0x0A \<notin> set l \<Longrightarrow> l = [] \<or> last l \<noteq> CHR 0x0D \<Longrightarrow>
   splitLines cur (l @ CHR 0x0A # rest) = (cur @ l) # splitLines [] rest"
proof (induction l arbitrary: cur)
  case Nil
  then show ?case by (cases rest) simp_all
next
  case (Cons c l)
  show ?case
  proof (cases l)
    case Nil
    with Cons.prems show ?thesis by (cases rest) auto
  next
    case (Cons d l')
    with Cons.prems Cons.IH [of "cur @ [c]"] show ?thesis by auto
  qed
qed

lemma splitLines_last:
  "CHR 0x0A \<notin> set l \<Longrightarrow> splitLines cur l = [cur @ l]"
proof (induction l arbitrary: cur)
  case Nil
  then show ?case by simp
next
  case (Cons c l)
  then show ?case by (cases l) auto
qed

lemma splitLines_joinLines:
  "ls \<noteq> [] \<Longrightarrow> \<forall>l \<in> set ls. plainLine l \<Longrightarrow> splitLines [] (joinLines ls) = ls"
proof (induction ls rule: joinLines.induct)
  case 1
  then show ?case by simp
next
  case (2 x)
  then show ?case by (simp add: plainLine_def splitLines_last)
next
  case (3 x y ys)
  from "3.prems" have x: "CHR 0x0A \<notin> set x" "x = [] \<or> last x \<noteq> CHR 0x0D"
    by (auto simp: plainLine_def)
  from "3.prems" "3.IH" have "splitLines [] (joinLines (y # ys)) = y # ys" by simp
  with splitLines_plain [OF x, of "[]" "joinLines (y # ys)"] show ?case by simp
qed

lemma dropWhile_keeps:
  "c \<in> set s \<Longrightarrow> \<not> P c \<Longrightarrow> c \<in> set (dropWhile P s)"
  by (induction s) auto

lemma trim_keeps: "c \<in> set s \<Longrightarrow> \<not> isWhiteSpace c \<Longrightarrow> c \<in> set (trim s)"
  by (simp add: trim_def dropWhile_keeps)

lemma trim_nonempty_char: "trim s \<noteq> [] \<Longrightarrow> \<exists>c \<in> set s. \<not> isWhiteSpace c"
  by (auto simp: trim_def dropWhile_eq_Nil_conv dest: set_dropWhileD)

lemma trim_trim_nonempty:
  assumes "trim t \<noteq> []"
  shows "trim (a @ trim t @ b) \<noteq> []"
proof -
  from trim_nonempty_char [OF assms] obtain c where c: "c \<in> set t" "\<not> isWhiteSpace c"
    by blast
  then have "c \<in> set (a @ trim t @ b)"
    by (simp add: trim_keeps)
  from trim_keeps [OF this c(2)] show ?thesis by auto
qed

lemma joinLines_glue:
  "joinLines ((a @ CHR 0x0A # b) # xs) = joinLines (a # b # xs)"
  by (cases xs) simp_all

lemma joinLines_Cons: "joinLines (x # xs) = x @ concat (map ((#) (CHR 0x0A)) xs)"
  by (induction xs arbitrary: x) simp_all

lemma parseLine_text:
  assumes "currentCaption st = Some c" and "textLine t"
  shows "parseLine st t =
           Inr (st\<lparr>currentCaption :=
                  Some (c\<lparr>text_c := text_c c @ (if text_c c = [] then [] else [CHR 0x0A]) @ trim t\<rparr>)\<rparr>)"
  using assms by (simp add: parseLine_def textLine_def)

lemma parseLoop_text_nonempty:
  assumes "currentCaption st = Some c" and "text_c c \<noteq> []" and "\<forall>t \<in> set ts. textLine t"
  shows "parseLoop st ts =
           Inr (st\<lparr>currentCaption := Some (c\<lparr>text_c := joinLines (text_c c # map trim ts)\<rparr>)\<rparr>)"
  using assms
proof (induction ts arbitrary: st c)
  case Nil
  then show ?case by simp
next
  case (Cons t ts)
  let ?c = "c\<lparr>text_c := text_c c @ CHR 0x0A # trim t\<rparr>"
  let ?st = "st\<lparr>currentCaption := Some ?c\<rparr>"
  have step: "parseLine st t = Inr ?st"
    using parseLine_text [OF Cons.prems(1), of t] Cons.prems(2,3) by simp
  have "parseLoop ?st ts =
          Inr (?st\<lparr>currentCaption := Some (?c\<lparr>text_c := joinLines (text_c ?c # map trim ts)\<rparr>)\<rparr>)"
    by (rule Cons.IH) (use Cons.prems in simp_all)
  then show ?case
    using step by (simp add: joinLines_glue)
qed

lemma parseLoop_text:
  assumes "currentCaption st = Some c" and "text_c c = []" and "\<forall>t \<in> set ts. textLine t"
  shows "parseLoop st ts =
           Inr (st\<lparr>currentCaption := Some (c\<lparr>text_c := joinLines (map trim ts)\<rparr>)\<rparr>)"
proof (cases ts)
  case Nil
  with assms show ?thesis by simp
next
  case (Cons t ts')
  let ?c = "c\<lparr>text_c := trim t\<rparr>"
  let ?st = "st\<lparr>currentCaption := Some ?c\<rparr>"
  from assms(3) Cons have t: "textLine t" and ts': "\<forall>t \<in> set ts'. textLine t" by simp_all
  have step: "parseLine st t = Inr ?st"
    using parseLine_text [OF assms(1) t] assms(2) by simp
  have "parseLoop ?st ts' =
          Inr (?st\<lparr>currentCaption := Some (?c\<lparr>text_c := joinLines (text_c ?c # map trim ts')\<rparr>)\<rparr>)"
    by (rule parseLoop_text_nonempty) (use t ts' in \<open>simp_all add: textLine_def\<close>)
  then show ?thesis
    using step Cons by simp
qed

lemma parseLine_first:
  assumes "currentCaption st = None" and "trim l \<noteq> []"
  shows "parseLine st l =
           Inr (st\<lparr>currentCaption := Some (newCaption (idCounter st)),
                  idCounter := idCounter st + 1\<rparr>)"
  using assms by (simp add: parseLine_def newCaption_def)

lemma trim_joinLines:
  assumes "ts \<noteq> []" and "\<forall>t \<in> set ts. textLine t"
  shows "trim (joinLines (map trim ts)) \<noteq> []"
proof -
  from assms obtain t ts' where ts: "ts = t # ts'" by (cases ts) auto
  with assms(2) have "trim t \<noteq> []" by (simp add: textLine_def)
  from trim_trim_nonempty [OF this, of "[]"] show ?thesis
    by (simp add: ts joinLines_Cons)
qed

lemma block_untimed:
  assumes "currentCaption st = None" and "trim l \<noteq> []" and "\<forall>t \<in> set ts. textLine t"
  shows "parseLoop st (l # ts) =
           Inr (st\<lparr>currentCaption :=
                    Some ((newCaption (idCounter st))\<lparr>text_c := joinLines (map trim ts)\<rparr>),
                  idCounter := idCounter st + 1\<rparr>)"
proof -
  let ?st = "st\<lparr>currentCaption := Some (newCaption (idCounter st)),
                  idCounter := idCounter st + 1\<rparr>"
  have "parseLoop ?st ts =
          Inr (?st\<lparr>currentCaption :=
                 Some ((newCaption (idCounter st))\<lparr>text_c := joinLines (map trim ts)\<rparr>)\<rparr>)"
    by (rule parseLoop_text) (use assms(3) in \<open>simp_all add: newCaption_def\<close>)
  then show ?thesis
    using parseLine_first [OF assms(1,2)] by simp
qed

lemma parseLoop_append:
  "parseLoop st (xs @ ys) =
     (case parseLoop st xs of Inl err \<Rightarrow> Inl err | Inr st' \<Rightarrow> parseLoop st' ys)"
  by (induction xs arbitrary: st) (simp_all split: sum.splits)

lemma jle_NaN_right [simp]: "jle a NaN = False"
  by (cases a) simp_all

lemma mark_active_timed:
  "active_c (mark t c) \<Longrightarrow> start_c c \<noteq> None \<and> end_c c \<noteq> None"
  by (cases "start_c c"; cases "end_c c") (simp_all add: mark_def jge_def)

lemma mark_untimed:
  "start_c c = None \<or> end_c c = None \<Longrightarrow> \<not> active_c (mark t c)"
  by (auto simp: mark_def jge_def)

lemma find_untimed:
  assumes "find active_c (captions (handleTimeUpdate (Some v) ed)) = Some c'"
  shows "start_c c' \<noteq> None \<and> end_c c' \<noteq> None"
proof -
  from assms have f: "find active_c (map (mark (currentTime_v v)) (captions ed)) = Some c'"
    by (simp add: handleTimeUpdate_def Let_def)
  then obtain i where i: "i < length (captions ed)"
    and a: "active_c (mark (currentTime_v v) (captions ed ! i))"
    and c': "c' = mark (currentTime_v v) (captions ed ! i)"
    unfolding find_Some_iff by auto
  from mark_active_timed [OF a]
  have "start_c (captions ed ! i) \<noteq> None \<and> end_c (captions ed ! i) \<noteq> None" .
  then show ?thesis by (simp add: c' mark_def)
qed

lemma parseLine_blank:
  "trim b = [] \<Longrightarrow>
   parseLine st b = Inr (st\<lparr>parsedCaptions := commit st, currentCaption := None\<rparr>)"
  by (simp add: parseLine_def)

lemma parseLine_time:
  assumes "currentCaption st = Some c" and "trim tline \<noteq> []" and "includes_str tline ''-->''"
    and "split tline ''-->'' = p0 # p1 # rest"
    and "srtTimeToSeconds (trim p0) = Inr a" and "srtTimeToSeconds (trim p1) = Inr b"
  shows "parseLine st tline =
           Inr (st\<lparr>currentCaption := Some (c\<lparr>start_c := Some a, end_c := Some b\<rparr>)\<rparr>)"
  using assms by (simp add: parseLine_def Let_def element_def)

lemma parseSrt_joinLines:
  assumes "ls \<noteq> []" and "\<forall>l \<in> set ls. plainLine l" and "parseLoop pinit ls = Inr st"
  shows "parseSrt (joinLines ls) = Inr (commit st)"
  using assms by (simp add: parseSrt_def splitLines_joinLines)

lemma untimed_block:
  assumes "currentCaption st = None" and "trim l \<noteq> []" and "ts \<noteq> []"
    and "\<forall>t \<in> set ts. textLine t"
  shows "parseLoop st (l # ts) =
        Inr (st\<lparr>currentCaption :=
                  Some \<lparr>id_c = idCounter st, text_c = joinLines (map trim ts), active_c = False,
                        start_c = None, end_c = None\<rparr>,
                idCounter := idCounter st + 1\<rparr>) \<and>
      commit (st\<lparr>currentCaption :=
                  Some \<lparr>id_c = idCounter st, text_c = joinLines (map trim ts), active_c = False,
                        start_c = None, end_c = None\<rparr>,
                idCounter := idCounter st + 1\<rparr>) =
        parsedCaptions st @
          [\<lparr>id_c = idCounter st, text_c = joinLines (map trim ts), active_c = False,
            start_c = None, end_c = None\<rparr>]"
  using block_untimed [OF assms(1,2,4)] trim_joinLines [OF assms(3,4)]
  by (simp add: newCaption_def commit_def)

lemma untimed_block_blank:
  assumes "currentCaption st = None" and "trim l \<noteq> []" and "ts \<noteq> []"
    and "\<forall>t \<in> set ts. textLine t" and "trim b = []"
  shows "parseLoop st (l # ts @ [b]) =
        Inr (st\<lparr>parsedCaptions := parsedCaptions st @
                  [\<lparr>id_c = idCounter st, text_c = joinLines (map trim ts), active_c = False,
                    start_c = None, end_c = None\<rparr>],
                currentCaption := None, idCounter := idCounter st + 1\<rparr>)"
proof -
  let ?cap = "\<lparr>id_c = idCounter st, text_c = joinLines (map trim ts), active_c = False,
                start_c = None, end_c = None\<rparr>"
  let ?st1 = "st\<lparr>currentCaption := Some ?cap, idCounter := idCounter st + 1\<rparr>"
  from untimed_block [OF assms(1-4)]
  have 1: "parseLoop st (l # ts) = Inr ?st1" and 2: "commit ?st1 = parsedCaptions st @ [?cap]"
    by simp_all
  have "parseLoop st ((l # ts) @ [b]) =
        Inr (st\<lparr>parsedCaptions := parsedCaptions st @ [?cap],
                currentCaption := None, idCounter := idCounter st + 1\<rparr>)"
    unfolding parseLoop_append 1 using 2 parseLine_blank [OF assms(5), of ?st1] by simp
  then show ?thesis by simp
qed

lemma untimed_block_parseSrt:
  assumes "trim l \<noteq> []" and "ts \<noteq> []" and "\<forall>t \<in> set ts. textLine t"
    and "\<forall>x \<in> set (l # ts). plainLine x"
  shows "parseSrt (joinLines (l # ts)) =
           Inr [\<lparr>id_c = 1, text_c = joinLines (map trim ts), active_c = False,
                 start_c = None, end_c = None\<rparr>]"
proof -
  have none: "currentCaption pinit = None" by (simp add: pinit_def)
  from untimed_block [OF none assms(1-3)] parseSrt_joinLines [OF _ assms(4)]
  show ?thesis by (simp add: pinit_def)
qed

lemma timed_block:
  assumes "currentCaption st = None" and "trim idx \<noteq> []"
    and "trim tline \<noteq> []" and "includes_str tline ''-->''"
    and "split tline ''-->'' = p0 # p1 # rest"
    and "srtTimeToSeconds (trim p0) = Inr a" and "srtTimeToSeconds (trim p1) = Inr b"
    and "ts \<noteq> []" and "\<forall>t \<in> set ts. textLine t"
  shows "parseLoop st (idx # tline # ts) =
        Inr (st\<lparr>currentCaption :=
                  Some \<lparr>id_c = idCounter st, text_c = joinLines (map trim ts), active_c = False,
                        start_c = Some a, end_c = Some b\<rparr>,
                idCounter := idCounter st + 1\<rparr>) \<and>
      commit (st\<lparr>currentCaption :=
                  Some \<lparr>id_c = idCounter st, text_c = joinLines (map trim ts), active_c = False,
                        start_c = Some a, end_c = Some b\<rparr>,
                idCounter := idCounter st + 1\<rparr>) =
        parsedCaptions st @
          [\<lparr>id_c = idCounter st, text_c = joinLines (map trim ts), active_c = False,
            start_c = Some a, end_c = Some b\<rparr>]"
proof -
  let ?st1 = "st\<lparr>currentCaption := Some (newCaption (idCounter st)),
                idCounter := idCounter st + 1\<rparr>"
  let ?c2 = "(newCaption (idCounter st))\<lparr>start_c := Some a, end_c := Some b\<rparr>"
  let ?st2 = "?st1\<lparr>currentCaption := Some ?c2\<rparr>"
  have 1: "parseLine st idx = Inr ?st1"
    by (rule parseLine_first [OF assms(1,2)])
  have 2: "parseLine ?st1 tline = Inr ?st2"
    by (rule parseLine_time [OF _ assms(3,4,5,6,7)]) simp
  have 3: "parseLoop ?st2 ts =
             Inr (?st2\<lparr>currentCaption := Some (?c2\<lparr>text_c := joinLines (map trim ts)\<rparr>)\<rparr>)"
    by (rule parseLoop_text) (use assms(9) in \<open>simp_all add: newCaption_def\<close>)
  show ?thesis
    using 1 2 3 trim_joinLines [OF assms(8,9)] by (simp add: newCaption_def commit_def)
qed

lemma timed_block_parseSrt:
  assumes "trim idx \<noteq> []"
    and "trim tline \<noteq> []" and "includes_str tline ''-->''"
    and "split tline ''-->'' = p0 # p1 # rest"
    and "srtTimeToSeconds (trim p0) = Inr a" and "srtTimeToSeconds (trim p1) = Inr b"
    and "ts \<noteq> []" and "\<forall>t \<in> set ts. textLine t"
    and "\<forall>x \<in> set (idx # tline # ts). plainLine x"
  shows "parseSrt (joinLines (idx # tline # ts)) =
           Inr [\<lparr>id_c = 1, text_c = joinLines (map trim ts), active_c = False,
                 start_c = Some a, end_c = Some b\<rparr>]"
proof -
  have none: "currentCaption pinit = None" by (simp add: pinit_def)
  from timed_block [OF none assms(1-8)] parseSrt_joinLines [OF _ assms(9)]
  show ?thesis by (simp add: pinit_def)
qed

text \<open>
  Claim C10. From a loop state between blocks, a block made of a first line and one or
  more text lines, none with the token \<^verbatim>\<open>-->\<close>, yields a caption whose \<^verbatim>\<open>start\<close> and
  \<^verbatim>\<open>end\<close> are unassigned; it is committed at the end of the input and at the next blank
  line, and an input made of such a block alone returns exactly that caption. A caption
  whose \<^verbatim>\<open>start\<close> or \<^verbatim>\<open>end\<close> is unassigned is inactive at every time, and the caption
  whose text the time-update handler displays is never such a caption.
\<close>

theorem untimed_block_never_active:
  "(currentCaption st = None \<and> trim l \<noteq> [] \<and> ts \<noteq> [] \<and> (\<forall>t \<in> set ts. textLine t) \<and>
    trim b = [] \<longrightarrow>
      parseLoop st (l # ts) =
        Inr (st\<lparr>currentCaption :=
                  Some \<lparr>id_c = idCounter st, text_c = joinLines (map trim ts), active_c = False,
                        start_c = None, end_c = None\<rparr>,
                idCounter := idCounter st + 1\<rparr>) \<and>
      commit (st\<lparr>currentCaption :=
                  Some \<lparr>id_c = idCounter st, text_c = joinLines (map trim ts), active_c = False,
                        start_c = None, end_c = None\<rparr>,
                idCounter := idCounter st + 1\<rparr>) =
        parsedCaptions st @
          [\<lparr>id_c = idCounter st, text_c = joinLines (map trim ts), active_c = False,
            start_c = None, end_c = None\<rparr>] \<and>
      parseLoop st (l # ts @ [b]) =
        Inr (st\<lparr>parsedCaptions := parsedCaptions st @
                  [\<lparr>id_c = idCounter st, text_c = joinLines (map trim ts), active_c = False,
                    start_c = None, end_c = None\<rparr>],
                currentCaption := None, idCounter := idCounter st + 1\<rparr>)) \<and>
   (trim l \<noteq> [] \<and> ts \<noteq> [] \<and> (\<forall>t \<in> set ts. textLine t) \<and>
    (\<forall>x \<in> set (l # ts). plainLine x) \<longrightarrow>
      parseSrt (joinLines (l # ts)) =
        Inr [\<lparr>id_c = 1, text_c = joinLines (map trim ts), active_c = False,
              start_c = None, end_c = None\<rparr>]) \<and>
   (start_c c = None \<or> end_c c = None \<longrightarrow> \<not> active_c (mark t c)) \<and>
   (\<forall>c'. find active_c (captions (handleTimeUpdate (Some v) ed)) = Some c' \<longrightarrow>
      start_c c' \<noteq> None \<and> end_c c' \<noteq> None)"
  using untimed_block [of st l ts] untimed_block_blank [of st l ts b]
    untimed_block_parseSrt [of l ts] mark_untimed [of c t] find_untimed [of v ed]
  by blast

text \<open>
  The block \<^verbatim>\<open>1 / hello / world\<close> is committed without timing. In a sequence where it
  comes before the caption A on 0..2, a time update at 1 leaves it inactive and shows A.
\<close>

theorem untimed_block_never_active_witness:
  "textLine ''hello'' \<and> textLine ''world'' \<and>
   plainLine ''1'' \<and> plainLine ''hello'' \<and> plainLine ''world'' \<and>
   joinLines [''1'', ''hello'', ''world''] = ''1\<newline>hello\<newline>world'' \<and>
   parseSrt ''1\<newline>hello\<newline>world'' =
     Inr [\<lparr>id_c = 1, text_c = ''hello\<newline>world'', active_c = False, start_c = None, end_c = None\<rparr>] \<and>
   parseLoop pinit [''1'', ''hello'', ''world'', []] =
     Inr \<lparr>parsedCaptions =
            [\<lparr>id_c = 1, text_c = ''hello\<newline>world'', active_c = False, start_c = None, end_c = None\<rparr>],
          currentCaption = None, idCounter = 2\<rparr> \<and>
   captions (handleTimeUpdate (Some \<lparr>currentTime_v = Fin 1, duration_v = Fin 10\<rparr>)
       (initial\<lparr>captions := untimed_then_timed\<rparr>)) =
     [\<lparr>id_c = 1, text_c = ''hello\<newline>world'', active_c = False, start_c = None, end_c = None\<rparr>,
      \<lparr>id_c = 2, text_c = ''A'', active_c = True, start_c = Some (Fin 0), end_c = Some (Fin 2)\<rparr>] \<and>
   find active_c (captions (handleTimeUpdate (Some \<lparr>currentTime_v = Fin 1, duration_v = Fin 10\<rparr>)
       (initial\<lparr>captions := untimed_then_timed\<rparr>))) =
     Some \<lparr>id_c = 2, text_c = ''A'', active_c = True, start_c = Some (Fin 0), end_c = Some (Fin 2)\<rparr> \<and>
   subtitleText (handleTimeUpdate (Some \<lparr>currentTime_v = Fin 1, duration_v = Fin 10\<rparr>)
       (initial\<lparr>captions := untimed_then_timed\<rparr>)) = ''A''"
  using untimed_block_never_active [of pinit "''1''" "[''hello'', ''world'']" "[]"
      "\<lparr>id_c = 1, text_c = ''hello\<newline>world'', active_c = False, start_c = None, end_c = None\<rparr>"
      "Fin 1" "\<lparr>currentTime_v = Fin 1, duration_v = Fin 10\<rparr>"
      "initial\<lparr>captions := untimed_then_timed\<rparr>"]
  by (simp add: parseSrt_def pinit_def parseLine_def commit_def trim_def isWhiteSpace_def
      textLine_def plainLine_def handleTimeUpdate_def Let_def mark_def jge_def initial_def
      truthy_def untimed_then_timed_def)

text \<open>
  Claim C5, as amended. The index line is not optional: the first non-blank line of a
  block is consumed as the index slot whatever it contains. When that line is itself the
  time-range line and text lines follow, the committed caption has the following lines as
  its text and no \<^verbatim>\<open>start\<close> and \<^verbatim>\<open>end\<close>. When an index line comes first and the
  time-range line second, with both timecodes convertible, the committed caption has the
  converted timecodes as \<^verbatim>\<open>start\<close> and \<^verbatim>\<open>end\<close> and the following lines as its text.
  Both hold in the loop from any state between blocks, and for an input made of the
  block alone.
\<close>

theorem first_line_is_index_slot:
  "(currentCaption st = None \<and> trim l \<noteq> [] \<and> includes_str l ''-->'' \<and> ts \<noteq> [] \<and>
    (\<forall>t \<in> set ts. textLine t) \<longrightarrow>
      parseLoop st (l # ts) =
        Inr (st\<lparr>currentCaption :=
                  Some \<lparr>id_c = idCounter st, text_c = joinLines (map trim ts), active_c = False,
                        start_c = None, end_c = None\<rparr>,
                idCounter := idCounter st + 1\<rparr>) \<and>
      commit (st\<lparr>currentCaption :=
                  Some \<lparr>id_c = idCounter st, text_c = joinLines (map trim ts), active_c = False,
                        start_c = None, end_c = None\<rparr>,
                idCounter := idCounter st + 1\<rparr>) =
        parsedCaptions st @
          [\<lparr>id_c = idCounter st, text_c = joinLines (map trim ts), active_c = False,
            start_c = None, end_c = None\<rparr>]) \<and>
   (trim l \<noteq> [] \<and> includes_str l ''-->'' \<and> ts \<noteq> [] \<and> (\<forall>t \<in> set ts. textLine t) \<and>
    (\<forall>x \<in> set (l # ts). plainLine x) \<longrightarrow>
      parseSrt (joinLines (l # ts)) =
        Inr [\<lparr>id_c = 1, text_c = joinLines (map trim ts), active_c = False,
              start_c = None, end_c = None\<rparr>]) \<and>
   (currentCaption st = None \<and> trim idx \<noteq> [] \<and> trim tline \<noteq> [] \<and>
    includes_str tline ''-->'' \<and> split tline ''-->'' = p0 # p1 # rest \<and>
    srtTimeToSeconds (trim p0) = Inr a \<and> srtTimeToSeconds (trim p1) = Inr b \<and>
    ts \<noteq> [] \<and> (\<forall>t \<in> set ts. textLine t) \<longrightarrow>
      parseLoop st (idx # tline # ts) =
        Inr (st\<lparr>currentCaption :=
                  Some \<lparr>id_c = idCounter st, text_c = joinLines (map trim ts), active_c = False,
                        start_c = Some a, end_c = Some b\<rparr>,
                idCounter := idCounter st + 1\<rparr>) \<and>
      commit (st\<lparr>currentCaption :=
                  Some \<lparr>id_c = idCounter st, text_c = joinLines (map trim ts), active_c = False,
                        start_c = Some a, end_c = Some b\<rparr>,
                idCounter := idCounter st + 1\<rparr>) =
        parsedCaptions st @
          [\<lparr>id_c = idCounter st, text_c = joinLines (map trim ts), active_c = False,
            start_c = Some a, end_c = Some b\<rparr>]) \<and>
   (trim idx \<noteq> [] \<and> trim tline \<noteq> [] \<and>
    includes_str tline ''-->'' \<and> split tline ''-->'' = p0 # p1 # rest \<and>
    srtTimeToSeconds (trim p0) = Inr a \<and> srtTimeToSeconds (trim p1) = Inr b \<and>
    ts \<noteq> [] \<and> (\<forall>t \<in> set ts. textLine t) \<and>
    (\<forall>x \<in> set (idx # tline # ts). plainLine x) \<longrightarrow>
      parseSrt (joinLines (idx # tline # ts)) =
        Inr [\<lparr>id_c = 1, text_c = joinLines (map trim ts), active_c = False,
              start_c = Some a, end_c = Some b\<rparr>])"
  using untimed_block [of st l ts] untimed_block_parseSrt [of l ts]
    timed_block [of st idx tline p0 p1 rest a b ts]
    timed_block_parseSrt [of idx tline p0 p1 rest a b ts]
  by blast

text \<open>
  The same time-range line as the first line of a block, and after an index line.
\<close>

theorem first_line_is_index_slot_witness:
  "includes_str ''00:00:01,000 --> 00:00:02,000'' ''-->'' \<and>
   textLine ''Hello'' \<and>
   plainLine ''7'' \<and> plainLine ''00:00:01,000 --> 00:00:02,000'' \<and> plainLine ''Hello'' \<and>
   parseSrt (joinLines [''7'', ''00:00:01,000 --> 00:00:02,000'', ''Hello'']) =
     Inr [\<lparr>id_c = 1, text_c = ''Hello'', active_c = False,
           start_c = Some (Fin 1), end_c = Some (Fin 2)\<rparr>] \<and>
   split ''00:00:01,000 --> 00:00:02,000'' ''-->'' = [''00:00:01,000 '', '' 00:00:02,000''] \<and>
   srtTimeToSeconds (trim ''00:00:01,000 '') = Inr (Fin 1) \<and>
   srtTimeToSeconds (trim '' 00:00:02,000'') = Inr (Fin 2) \<and>
   parseLoop pinit [''00:00:01,000 --> 00:00:02,000'', ''Hello''] =
     Inr \<lparr>parsedCaptions = [],
          currentCaption = Some \<lparr>id_c = 1, text_c = ''Hello'', active_c = False,
                                 start_c = None, end_c = None\<rparr>,
          idCounter = 2\<rparr> \<and>
   parseLoop pinit [''7'', ''00:00:01,000 --> 00:00:02,000'', ''Hello''] =
     Inr \<lparr>parsedCaptions = [],
          currentCaption = Some \<lparr>id_c = 1, text_c = ''Hello'', active_c = False,
                                 start_c = Some (Fin 1), end_c = Some (Fin 2)\<rparr>,
          idCounter = 2\<rparr>"
  using first_line_is_index_slot [of pinit "''00:00:01,000 --> 00:00:02,000''" "[''Hello'']"
      "''7''" "''00:00:01,000 --> 00:00:02,000''" "''00:00:01,000 ''" "'' 00:00:02,000''" "[]"
      "Fin 1" "Fin 2"]
  by (simp add: pinit_def trim_def isWhiteSpace_def textLine_def plainLine_def split_def
      srtTimeToSeconds_def element_def parseInt_def isDigit_def decimal_def digitValue_def)

text \<open>
  Claim C5 as stated fails: the block starts with the time-range line, whose timecodes
  convert to 1 and 2, and the committed caption has neither.
\<close>

theorem timecode_first_line_counterexample:
  "parseSrt ''00:00:01,000 --> 00:00:02,000\<newline>Hello'' =
     Inr [\<lparr>id_c = 1, text_c = ''Hello'', active_c = False, start_c = None, end_c = None\<rparr>] \<and>
   srtTimeToSeconds ''00:00:01,000'' = Inr (Fin 1) \<and>
   srtTimeToSeconds ''00:00:02,000'' = Inr (Fin 2)"
  by (simp add: parseSrt_def pinit_def parseLine_def commit_def trim_def isWhiteSpace_def
      srtTimeToSeconds_def split_def element_def parseInt_def isDigit_def decimal_def
      digitValue_def)

end
